theory Spec2Isabelle
  imports Complex_Main
begin

unbundle bit_operations_syntax

section \<open>Arrays, drawings and the outside world\<close>

text \<open>
  The two source files (\<open>main.py\<close>, \<open>Focus.py\<close>) work on numpy arrays through OpenCV.
  An array is modelled by its shape, its samples (by row, column and channel) and the list of drawings made on it in
  place (\<open>cv2.putText\<close>, \<open>cv2.circle\<close>): the drawings are kept symbolically, in the order
  of the calls. Arrays live in a store, since Python passes them by reference and two of
  the calls write into their argument.

  Numbers that numpy and Python compute in double precision are modelled by real numbers.
\<close>

type_synonym bgr = "nat \<times> nat \<times> nat"

datatype drawing =
    PutText bool real "int \<times> int" bgr
  | Circle "int \<times> int" int bgr int

record image =
  height :: nat
  width :: nat
  channels :: nat
  samples :: "nat \<Rightarrow> nat \<Rightarrow> nat \<Rightarrow> nat"
  overlay :: "drawing list"

datatype message =
    ContoursFound nat
  | KeypointsDetected nat
  | BlobCenter int int int
  | NonAverageBlob int int int
  | ExcludedByEdgeFilter
  | FailedToCapture
  | FocusStatus real bool
  | PressSpace
  | OperatorCameraError
  | OperatorFound nat real real
  | OperatorLargeBlob "real \<times> real" real

datatype effect =
    Print message
  | ImShow string image
  | Release
  | DestroyWindow string
  | DestroyAllWindows

text \<open>\<open>CvError\<close> is the exception \<open>cv2.error\<close>; \<open>NoArray\<close> stands for an address that holds
  no array, which a Python reference never is.\<close>

datatype error = CvError | NoArray

record world =
  cells :: "nat \<rightharpoonup> image"
  fresh :: nat
  trace :: "effect list"

definition new_array :: "image \<Rightarrow> world \<Rightarrow> nat \<times> world" where
  "new_array img s = (fresh s, s\<lparr>cells := (cells s)(fresh s \<mapsto> img), fresh := Suc (fresh s)\<rparr>)"

definition draw :: "nat \<Rightarrow> drawing \<Rightarrow> world \<Rightarrow> world" where
  "draw a d s =
     (case cells s a of
        None \<Rightarrow> s
      | Some img \<Rightarrow> s\<lparr>cells := (cells s)(a \<mapsto> img\<lparr>overlay := overlay img @ [d]\<rparr>)\<rparr>)"

definition say :: "message \<Rightarrow> world \<Rightarrow> world" where
  "say m s = s\<lparr>trace := trace s @ [Print m]\<rparr>"

definition imshow :: "string \<Rightarrow> nat \<Rightarrow> world \<Rightarrow> world" where
  "imshow win a s =
     (case cells s a of
        None \<Rightarrow> s
      | Some img \<Rightarrow> s\<lparr>trace := trace s @ [ImShow win img]\<rparr>)"

definition drawn_on :: "nat \<Rightarrow> world \<Rightarrow> drawing list" where
  "drawn_on a s = (case cells s a of None \<Rightarrow> [] | Some img \<Rightarrow> overlay img)"


section \<open>Numbers: \<open>int()\<close>, \<open>np.mean\<close>, \<open>np.std\<close>\<close>

definition py_int :: "real \<Rightarrow> int" where
  "py_int x = (if 0 \<le> x then \<lfloor>x\<rfloor> else \<lceil>x\<rceil>)"

text \<open>\<open>np_mean\<close> and \<open>np_std\<close> are the population mean and standard deviation over the real
  numbers. numpy computes them in double precision, and its result can differ from them
  in the last place; the loop over the keypoints is therefore given twice, with these exact
  statistics and with the arithmetic as a parameter.\<close>

definition np_mean :: "real list \<Rightarrow> real" where
  "np_mean xs = sum_list xs / real (length xs)"

definition np_std :: "real list \<Rightarrow> real" where
  "np_std xs = sqrt (np_mean (map (\<lambda>x. \<bar>x - np_mean xs\<bar> ^ 2) xs))"

section \<open>Configuration\<close>

type_synonym config = "string \<rightharpoonup> real"

definition config_get :: "config \<Rightarrow> string \<Rightarrow> real \<Rightarrow> real" where
  "config_get cfg k d = (case cfg k of None \<Rightarrow> d | Some v \<Rightarrow> v)"

section \<open>OpenCV\<close>

text \<open>
  The OpenCV functions the source calls are parameters of the model. Of
  \<open>cv2.cvtColor(_, cv2.COLOR_BGR2GRAY)\<close> one documented fact is used: it accepts arrays
  of three or four channels and raises \<open>cv2.error\<close> on any other.
\<close>

record keypoint =
  pt :: "real \<times> real"
  kp_size :: real

record opencv =
  bgr2gray :: "image \<Rightarrow> image"
  gray2bgr :: "image \<Rightarrow> image"
  gaussian_blur :: "image \<Rightarrow> image"
  threshold_inv :: "image \<Rightarrow> image"
  find_contours :: "image \<Rightarrow> nat"
  blob_detect :: "real option \<Rightarrow> real \<Rightarrow> image \<Rightarrow> error + keypoint list"
  laplacian_var :: "image \<Rightarrow> real"

definition cvtColor_BGR2GRAY :: "opencv \<Rightarrow> image \<Rightarrow> error + image" where
  "cvtColor_BGR2GRAY cv img =
     (if channels img = 3 \<or> channels img = 4 then Inr (bgr2gray cv img) else Inl CvError)"

section \<open>main.py: \<open>detect_blobs\<close>\<close>

record blob =
  blob_pt :: "real \<times> real"
  blob_size :: real

definition red :: bgr where "red = (0, 0, 255)"
definition green :: bgr where "green = (0, 255, 0)"

definition radii :: "keypoint list \<Rightarrow> real list" where
  "radii keypoints = map (\<lambda>kp. kp_size kp / 2) keypoints"

definition mean_radius :: "keypoint list \<Rightarrow> real" where
  "mean_radius keypoints = (if radii keypoints \<noteq> [] then np_mean (radii keypoints) else 0)"

definition std_radius :: "keypoint list \<Rightarrow> real" where
  "std_radius keypoints = (if radii keypoints \<noteq> [] then np_std (radii keypoints) else 0)"

text \<open>The three integers of the loop body: \<open>x, y = int(kp.pt[0]), int(kp.pt[1])\<close> and
  \<open>r = int(kp.size / 2)\<close>.\<close>

definition kp_x :: "keypoint \<Rightarrow> int" where "kp_x kp = py_int (fst (pt kp))"
definition kp_y :: "keypoint \<Rightarrow> int" where "kp_y kp = py_int (snd (pt kp))"
definition kp_r :: "keypoint \<Rightarrow> int" where "kp_r kp = py_int (kp_size kp / 2)"

text \<open>The edge test of line 73 and the size test of line 76.\<close>

definition inside :: "int \<Rightarrow> int \<Rightarrow> real \<Rightarrow> int \<Rightarrow> int \<Rightarrow> int \<Rightarrow> bool" where
  "inside w h margin x y r \<longleftrightarrow>
     real_of_int (x - r) > margin \<and> real_of_int (x + r) < real_of_int w - margin \<and>
     real_of_int (y - r) > margin \<and> real_of_int (y + r) < real_of_int h - margin"

definition non_average :: "real \<Rightarrow> real \<Rightarrow> int \<Rightarrow> bool" where
  "non_average mean_r std_r r \<longleftrightarrow> std_r > 0 \<and> \<bar>real_of_int r - mean_r\<bar> > 2 * std_r"

text \<open>One pass of the \<open>for\<close> loop; the state is the list \<open>blobs\<close> and the world, \<open>imk\<close> is
  the address of \<open>im_with_keypoints\<close>.\<close>

definition keypoint_step ::
  "int \<Rightarrow> int \<Rightarrow> real \<Rightarrow> real \<Rightarrow> real \<Rightarrow> nat \<Rightarrow> blob list \<times> world \<Rightarrow> keypoint \<Rightarrow> blob list \<times> world"
where
  "keypoint_step w h margin mean_r std_r imk st kp =
     (let x = kp_x kp; y = kp_y kp; r = kp_r kp;
          s = say (BlobCenter x y r) (snd st)
      in if inside w h margin x y r then
           let blobs = fst st @ [\<lparr>blob_pt = pt kp, blob_size = kp_size kp\<rparr>] in
           if non_average mean_r std_r r then
             (blobs, draw imk (Circle (x, y) r red 2) (say (NonAverageBlob x y r) s))
           else
             (blobs, draw imk (Circle (x, y) r green 2) s)
         else (fst st, say ExcludedByEdgeFilter s))"

text \<open>Lines 62 to 85: from the detected keypoints and the thresholded array \<open>t\<close> to the
  returned list; \<open>img\<close> is the frame, read for its shape only.\<close>

definition mark_blobs ::
  "opencv \<Rightarrow> image \<Rightarrow> real \<Rightarrow> image \<Rightarrow> keypoint list \<Rightarrow> world \<Rightarrow> blob list \<times> world"
where
  "mark_blobs cv img margin t keypoints s =
     (let h = int (height img); w = int (width img);
          mean_r = mean_radius keypoints;
          std_r = std_radius keypoints;
          (imk, s) = new_array (gray2bgr cv t) s;
          (blobs, s) = foldl (keypoint_step w h margin mean_r std_r imk) ([], s) keypoints
      in (blobs, imshow ''Blobs'' imk s))"

text \<open>The whole function. The frame is passed by its address \<open>a\<close>; an exception leaves
  the world as it was when it was raised.\<close>

definition detect_blobs ::
  "opencv \<Rightarrow> nat \<Rightarrow> config \<Rightarrow> world \<Rightarrow> (error + blob list) \<times> world"
where
  "detect_blobs cv a cfg s =
     (case cells s a of
        None \<Rightarrow> (Inl NoArray, s)
      | Some img \<Rightarrow>
          let margin = config_get cfg ''blob_margin'' 10;
              min_area = cfg ''blob_min_area'';
              max_area = config_get cfg ''blob_max_area'' 100000
          in case cvtColor_BGR2GRAY cv img of
               Inl e \<Rightarrow> (Inl e, s)
             | Inr g \<Rightarrow>
                 let (gray, s) = new_array g s;
                     (blurred, s) = new_array (gaussian_blur cv g) s;
                     t = threshold_inv cv (gaussian_blur cv g);
                     (thresh, s) = new_array t s;
                     s = imshow ''Thresholded Image'' thresh s;
                     s = say (ContoursFound (find_contours cv t)) s
                 in case blob_detect cv min_area max_area t of
                      Inl e \<Rightarrow> (Inl e, s)
                    | Inr keypoints \<Rightarrow>
                        let s = say (KeypointsDetected (length keypoints)) s;
                            (blobs, s) = mark_blobs cv img margin t keypoints s
                        in (Inr blobs, s))"

section \<open>main.py: the scan branch and the loop of \<open>main\<close>\<close>

definition operator_message :: "message \<Rightarrow> world \<Rightarrow> world" where
  "operator_message msg s = say msg s"

definition avg_size :: "blob list \<Rightarrow> real" where
  "avg_size blobs = (if blobs \<noteq> [] then np_mean (map blob_size blobs) else 0)"

text \<open>Lines 113 to 115, one pass.\<close>

definition large_blob_step :: "real \<Rightarrow> world \<Rightarrow> blob \<Rightarrow> world" where
  "large_blob_step avg s b =
     (if blob_size b > avg * 1.5
      then operator_message (OperatorLargeBlob (blob_pt b) (blob_size b)) s
      else s)"

text \<open>Lines 107 to 115: what pressing SPACE does.\<close>

definition scan :: "opencv \<Rightarrow> nat \<Rightarrow> config \<Rightarrow> real \<Rightarrow> world \<Rightarrow> (error + unit) \<times> world" where
  "scan cv frame cfg expected_count s =
     (case detect_blobs cv frame cfg s of
        (Inl e, s) \<Rightarrow> (Inl e, s)
      | (Inr blobs, s) \<Rightarrow>
          let found_count = length blobs;
              diff = expected_count - real found_count;
              s = operator_message (OperatorFound found_count expected_count diff) s;
              avg = avg_size blobs
          in (Inr (), foldl (large_blob_step avg) s blobs))"

text \<open>
  The camera and the keyboard are the environment: \<open>camera i\<close> is what the \<open>i\<close>-th
  \<open>read()\<close> delivers (\<open>None\<close> when \<open>ret\<close> is false) and \<open>keys i\<close> what \<open>cv2.waitKey\<close>
  returns in the \<open>i\<close>-th pass. The loops are \<open>while True\<close>: a run that never leaves the
  loop has the value \<open>None\<close>.
\<close>

partial_function (option) main_loop ::
  "opencv \<Rightarrow> config \<Rightarrow> real \<Rightarrow> (nat \<Rightarrow> image option) \<Rightarrow> (nat \<Rightarrow> int) \<Rightarrow> nat \<Rightarrow> world
     \<Rightarrow> ((error + unit) \<times> world) option"
where
  "main_loop cv cfg expected_count camera keys i s =
     (case camera i of
        None \<Rightarrow> Some (Inr (), operator_message OperatorCameraError s)
      | Some f \<Rightarrow>
          (case new_array f s of
             (frame, s) \<Rightarrow>
               (let s = imshow ''Tray View'' frame s;
                    key = keys i AND 255
                in if key = 27 then Some (Inr (), s)
                   else if key = 32 then
                     (case scan cv frame cfg expected_count s of
                        (Inl e, s) \<Rightarrow> Some (Inl e, s)
                      | (Inr u, s) \<Rightarrow> main_loop cv cfg expected_count camera keys (Suc i) s)
                   else main_loop cv cfg expected_count camera keys (Suc i) s)))"

text \<open>\<open>cfg\<close> is the dictionary that \<open>load_tray_config\<close> returns.\<close>

definition main ::
  "opencv \<Rightarrow> config \<Rightarrow> (nat \<Rightarrow> image option) \<Rightarrow> (nat \<Rightarrow> int) \<Rightarrow> world
     \<Rightarrow> ((error + unit) \<times> world) option"
where
  "main cv cfg camera keys s =
     (let expected_count = config_get cfg ''expected_count'' 0;
          s = say PressSpace s
      in case main_loop cv cfg expected_count camera keys 0 s of
           None \<Rightarrow> None
         | Some (Inl e, s) \<Rightarrow> Some (Inl e, s)
         | Some (Inr u, s) \<Rightarrow> Some (Inr (), s\<lparr>trace := trace s @ [Release, DestroyAllWindows]\<rparr>))"

section \<open>Focus.py\<close>

definition is_camera_in_focus ::
  "opencv \<Rightarrow> nat \<Rightarrow> real \<Rightarrow> world \<Rightarrow> (error + bool \<times> real) \<times> world"
where
  "is_camera_in_focus cv a threshold s =
     (case cells s a of
        None \<Rightarrow> (Inl NoArray, s)
      | Some img \<Rightarrow>
          (case cvtColor_BGR2GRAY cv img of
             Inl e \<Rightarrow> (Inl e, s)
           | Inr g \<Rightarrow>
               let (gray, s) = new_array g s;
                   lap_var = laplacian_var cv g
               in (Inr (lap_var > threshold, lap_var), s)))"

partial_function (option) focus_loop ::
  "opencv \<Rightarrow> (nat \<Rightarrow> image option) \<Rightarrow> (nat \<Rightarrow> int) \<Rightarrow> real \<Rightarrow> nat \<Rightarrow> world
     \<Rightarrow> ((error + nat option) \<times> world) option"
where
  "focus_loop cv camera keys threshold i s =
     (case camera i of
        None \<Rightarrow> Some (Inr None, say FailedToCapture s)
      | Some f \<Rightarrow>
          (case new_array f s of
             (frame, s) \<Rightarrow>
               (case is_camera_in_focus cv frame threshold s of
                  (Inl e, s) \<Rightarrow> Some (Inl e, s)
                | (Inr (in_focus, focus_measure), s) \<Rightarrow>
                    (let s = say (FocusStatus focus_measure in_focus) s;
                         s = draw frame
                               (PutText in_focus focus_measure (10, 30)
                                  (if in_focus then green else red)) s;
                         s = imshow ''Camera Focus'' frame s
                     in if in_focus then
                          Some (Inr (Some frame),
                                s\<lparr>trace := trace s @ [Release, DestroyWindow ''Camera Focus'']\<rparr>)
                        else if keys i AND 255 = 27 then
                          Some (Inr None,
                                s\<lparr>trace := trace s @ [Release, DestroyWindow ''Camera Focus'']\<rparr>)
                        else focus_loop cv camera keys threshold (Suc i) s))))"

definition wait_for_focus ::
  "opencv \<Rightarrow> (nat \<Rightarrow> image option) \<Rightarrow> (nat \<Rightarrow> int) \<Rightarrow> real \<Rightarrow> world
     \<Rightarrow> ((error + nat option) \<times> world) option"
where
  "wait_for_focus cv camera keys threshold s = focus_loop cv camera keys threshold 0 s"

section \<open>main.py: the loop over the keypoints in the arithmetic of the interpreter\<close>








section \<open>Observations\<close>

text \<open>What the statements below read off a run: the dictionary appended for a keypoint,
  the edge test and the circle of a keypoint, the keypoints announced as non-average, and
  the population variance under \<open>np.std\<close>.\<close>

definition blob_of :: "keypoint \<Rightarrow> blob" where
  "blob_of kp = \<lparr>blob_pt = pt kp, blob_size = kp_size kp\<rparr>"

definition passes :: "int \<Rightarrow> int \<Rightarrow> real \<Rightarrow> keypoint \<Rightarrow> bool" where
  "passes w h margin kp = inside w h margin (kp_x kp) (kp_y kp) (kp_r kp)"

definition circle_of :: "real \<Rightarrow> real \<Rightarrow> keypoint \<Rightarrow> drawing" where
  "circle_of mean_r std_r kp =
     Circle (kp_x kp, kp_y kp) (kp_r kp) (if non_average mean_r std_r (kp_r kp) then red else green) 2"

definition live :: "world \<Rightarrow> nat \<Rightarrow> bool" where
  "live s a \<longleftrightarrow> cells s a \<noteq> None"

fun flag_of :: "effect \<Rightarrow> (int \<times> int \<times> int) list" where
  "flag_of (Print (NonAverageBlob x y r)) = [(x, y, r)]"
| "flag_of e = []"

definition flagged :: "world \<Rightarrow> (int \<times> int \<times> int) list" where
  "flagged s = concat (map flag_of (trace s))"

definition variance :: "real list \<Rightarrow> real" where
  "variance xs = np_mean (map (\<lambda>x. \<bar>x - np_mean xs\<bar> ^ 2) xs)"

definition the_loop ::
  "opencv \<Rightarrow> image \<Rightarrow> real \<Rightarrow> image \<Rightarrow> keypoint list \<Rightarrow> world \<Rightarrow> blob list \<times> world"
where
  "the_loop cv img margin t kps s =
     foldl (keypoint_step (int (width img)) (int (height img)) margin
              (mean_radius kps) (std_radius kps) (fresh s))
       ([], snd (new_array (gray2bgr cv t) s)) kps"

definition thresholded :: "opencv \<Rightarrow> image \<Rightarrow> image" where
  "thresholded cv img = threshold_inv cv (gaussian_blur cv (bgr2gray cv img))"

text \<open>One pass of the loop of \<open>wait_for_focus\<close> on a frame of three or four channels, up
  to \<open>cv2.imshow\<close>; the two calls that close the camera and the window; a pass after
  which the loop goes round again; the world after \<open>n\<close> such passes.\<close>

definition focus_pass :: "opencv \<Rightarrow> image \<Rightarrow> real \<Rightarrow> world \<Rightarrow> world" where
  "focus_pass cv f threshold s =
     (let s1 = snd (new_array f s);
          s2 = snd (new_array (bgr2gray cv f) s1);
          v = laplacian_var cv (bgr2gray cv f);
          s3 = say (FocusStatus v (v > threshold)) s2;
          s4 = draw (fresh s) (PutText (v > threshold) v (10, 30) (if v > threshold then green else red)) s3
      in imshow ''Camera Focus'' (fresh s) s4)"

definition closing :: "world \<Rightarrow> world" where
  "closing s = s\<lparr>trace := trace s @ [Release, DestroyWindow ''Camera Focus'']\<rparr>"

definition goes_on :: "opencv \<Rightarrow> (nat \<Rightarrow> image option) \<Rightarrow> (nat \<Rightarrow> int) \<Rightarrow> real \<Rightarrow> nat \<Rightarrow> bool" where
  "goes_on cv camera keys threshold i =
     (case camera i of
        None \<Rightarrow> False
      | Some f \<Rightarrow> (channels f = 3 \<or> channels f = 4) \<and>
                  \<not> laplacian_var cv (bgr2gray cv f) > threshold \<and> keys i AND 255 \<noteq> 27)"

fun after_passes :: "opencv \<Rightarrow> (nat \<Rightarrow> image option) \<Rightarrow> real \<Rightarrow> nat \<Rightarrow> nat \<Rightarrow> world \<Rightarrow> world" where
  "after_passes cv camera threshold i 0 s = s"
| "after_passes cv camera threshold i (Suc n) s =
     (case camera i of
        None \<Rightarrow> s
      | Some f \<Rightarrow> after_passes cv camera threshold (Suc i) n (focus_pass cv f threshold s))"


section \<open>Concrete inputs\<close>

text \<open>An OpenCV whose detector reports the keypoints \<open>kps\<close> and whose focus measure is
  \<open>v\<close> on every array; blank frames; an empty store.\<close>

definition fixed_cv :: "keypoint list \<Rightarrow> real \<Rightarrow> opencv" where
  "fixed_cv kps v =
     \<lparr>bgr2gray = (\<lambda>img. img\<lparr>channels := 1\<rparr>),
      gray2bgr = (\<lambda>img. img\<lparr>channels := 3\<rparr>),
      gaussian_blur = (\<lambda>img. img),
      threshold_inv = (\<lambda>img. img),
      find_contours = (\<lambda>img. length kps),
      blob_detect = (\<lambda>min_area max_area img. Inr kps),
      laplacian_var = (\<lambda>img. v)\<rparr>"

definition blank :: "nat \<Rightarrow> nat \<Rightarrow> nat \<Rightarrow> image" where
  "blank h w c = \<lparr>height = h, width = w, channels = c, samples = (\<lambda>i j k. 255), overlay = []\<rparr>"

definition empty_world :: world where
  "empty_world = \<lparr>cells = Map.empty, fresh = 0, trace = []\<rparr>"

definition kpt :: "real \<Rightarrow> real \<Rightarrow> real \<Rightarrow> keypoint" where
  "kpt x y d = \<lparr>pt = (x, y), kp_size = d\<rparr>"

definition world_with :: "image \<Rightarrow> world" where
  "world_with img = snd (new_array img empty_world)"

text \<open>The scenario of four blobs of radius 10 and one of radius 40 at the centre of a
  200 by 200 frame.\<close>

definition five_blobs :: "keypoint list" where
  "five_blobs = [kpt 30 30 20, kpt 170 30 20, kpt 30 170 20, kpt 170 170 20, kpt 100 100 80]"


text \<open>A blob of radius 9.75 centred at (180.75, 100): its circle reaches 190.5.\<close>

definition overhanging_blob :: "keypoint list" where
  "overhanging_blob = [kpt 180.75 100 19.5]"



text \<open>One blob inside the frame, alone and then together with five large blobs that lie
  across the corner of the frame.\<close>

definition lone_blob :: "keypoint list" where
  "lone_blob = [kpt 30 30 20]"

definition corner_blobs :: "keypoint list" where
  "corner_blobs = [kpt 30 30 20, kpt 5 5 80, kpt 5 5 80, kpt 5 5 80, kpt 5 5 80, kpt 5 5 80]"


definition default_margin_config :: config where
  "default_margin_config = [''blob_min_area'' \<mapsto> 50, ''expected_count'' \<mapsto> 5]"

definition no_min_area_config :: config where
  "no_min_area_config = [''blob_margin'' \<mapsto> 5, ''expected_count'' \<mapsto> 5]"

text \<open>Cameras and keyboards: a camera that delivers nothing, one that delivers the same
  frame for ever, one that delivers one frame and then fails; no key, and ESC.\<close>

definition dead_camera :: "nat \<Rightarrow> image option" where
  "dead_camera i = None"

definition still_camera :: "image \<Rightarrow> nat \<Rightarrow> image option" where
  "still_camera f i = Some f"

definition one_shot_camera :: "image \<Rightarrow> nat \<Rightarrow> image option" where
  "one_shot_camera f i = (if i = 0 then Some f else None)"

definition no_key :: "nat \<Rightarrow> int" where
  "no_key i = - 1"

definition esc_key :: "nat \<Rightarrow> int" where
  "esc_key i = 27"

section \<open>The loop over the keypoints\<close>

lemma step_fst:
  "fst (keypoint_step w h margin m sd imk st kp) =
     fst st @ (if passes w h margin kp then [blob_of kp] else [])"
  by (simp add: keypoint_step_def Let_def passes_def blob_of_def)

lemma loop_fst:
  "fst (foldl (keypoint_step w h margin m sd imk) st kps) =
     fst st @ map blob_of (filter (passes w h margin) kps)"
  by (induction kps arbitrary: st) (simp_all add: step_fst)

lemma drawn_on_say [simp]: "drawn_on a (say m s) = drawn_on a s"
  by (simp add: drawn_on_def say_def)

lemma cells_say [simp]: "cells (say m s) = cells s"
  by (simp add: say_def)

lemma fresh_say [simp]: "fresh (say m s) = fresh s"
  by (simp add: say_def)


lemma fresh_draw [simp]: "fresh (draw a d s) = fresh s"
  by (simp add: draw_def split: option.splits)

lemma live_say [simp]: "live (say m s) a = live s a"
  by (simp add: live_def)

lemma drawn_on_draw:
  "live s a \<Longrightarrow> drawn_on a (draw a d s) = drawn_on a s @ [d]"
  by (auto simp add: live_def draw_def drawn_on_def split: option.splits)

lemma live_draw: "live s a \<Longrightarrow> live (draw b d s) a"
  by (auto simp add: live_def draw_def split: option.splits)


lemma step_fresh:
  "fresh (snd (keypoint_step w h margin m sd imk st kp)) = fresh (snd st)"
  by (simp add: keypoint_step_def Let_def)

lemma step_live:
  "live (snd st) imk \<Longrightarrow> live (snd (keypoint_step w h margin m sd imk st kp)) imk"
  by (simp add: keypoint_step_def Let_def live_draw)

lemma step_drawn:
  "live (snd st) imk \<Longrightarrow>
   drawn_on imk (snd (keypoint_step w h margin m sd imk st kp)) =
     drawn_on imk (snd st) @ (if passes w h margin kp then [circle_of m sd kp] else [])"
  by (simp add: keypoint_step_def Let_def passes_def circle_of_def drawn_on_draw)


lemma loop_fresh:
  "fresh (snd (foldl (keypoint_step w h margin m sd imk) st kps)) = fresh (snd st)"
  by (induction kps arbitrary: st) (simp_all add: step_fresh)

lemma loop_drawn:
  "live (snd st) imk \<Longrightarrow>
   drawn_on imk (snd (foldl (keypoint_step w h margin m sd imk) st kps)) =
     drawn_on imk (snd st) @ map (circle_of m sd) (filter (passes w h margin) kps)"
  by (induction kps arbitrary: st) (simp_all add: step_drawn step_live)

lemma cells_imshow [simp]: "cells (imshow win a s) = cells s"
  by (simp add: imshow_def split: option.splits)

lemma fresh_imshow [simp]: "fresh (imshow win a s) = fresh s"
  by (simp add: imshow_def split: option.splits)

lemma drawn_on_imshow [simp]: "drawn_on b (imshow win a s) = drawn_on b s"
  by (simp add: drawn_on_def)

lemma live_new_array: "live (snd (new_array img s)) (fst (new_array img s))"
  by (simp add: live_def new_array_def)

lemma drawn_on_new_array: "drawn_on (fresh s) (snd (new_array img s)) = overlay img"
  by (simp add: drawn_on_def new_array_def)

lemma mark_blobs_eq:
  "mark_blobs cv img margin t kps s =
     (fst (the_loop cv img margin t kps s),
      imshow ''Blobs'' (fresh s) (snd (the_loop cv img margin t kps s)))"
  by (simp add: mark_blobs_def the_loop_def Let_def new_array_def case_prod_beta)

lemma mark_blobs_fst:
  "fst (mark_blobs cv img margin t kps s) =
     map blob_of (filter (passes (int (width img)) (int (height img)) margin) kps)"
  by (simp add: mark_blobs_eq the_loop_def loop_fst)

lemma mark_blobs_drawn:
  "drawn_on (fresh s) (snd (mark_blobs cv img margin t kps s)) =
     overlay (gray2bgr cv t) @
     map (circle_of (mean_radius kps) (std_radius kps))
       (filter (passes (int (width img)) (int (height img)) margin) kps)"
proof -
  have "live (snd (new_array (gray2bgr cv t) s)) (fresh s)"
    using live_new_array [of "gray2bgr cv t" s] by (simp add: new_array_def)
  then show ?thesis
    by (simp add: mark_blobs_eq the_loop_def loop_drawn drawn_on_new_array)
qed


lemma mark_blobs_fresh:
  "fresh (snd (mark_blobs cv img margin t kps s)) = Suc (fresh s)"
  by (simp add: mark_blobs_eq the_loop_def loop_fresh new_array_def)

lemma twice_sqrt_less:
  assumes "0 \<le> v" "0 \<le> a"
  shows "2 * sqrt v < a \<longleftrightarrow> 4 * v < a\<^sup>2"
proof -
  have "2 * sqrt v = sqrt (4 * v)"
    by (simp add: real_sqrt_mult)
  moreover have "a = sqrt (a\<^sup>2)"
    using assms by simp
  ultimately have "2 * sqrt v < a \<longleftrightarrow> sqrt (4 * v) < sqrt (a\<^sup>2)"
    by simp
  then show ?thesis
    by (simp only: real_sqrt_less_iff)
qed

lemma np_mean_nonneg: "(\<forall>x\<in>set xs. 0 \<le> x) \<Longrightarrow> 0 \<le> np_mean xs"
  by (simp add: np_mean_def sum_list_nonneg)

lemma variance_nonneg: "0 \<le> variance xs"
  unfolding variance_def by (rule np_mean_nonneg) simp

lemma np_std_sqrt: "np_std xs = sqrt (variance xs)"
  by (simp add: np_std_def variance_def)

lemma non_average_np_std:
  "non_average m (np_std xs) r \<longleftrightarrow>
     0 < variance xs \<and> 4 * variance xs < (real_of_int r - m)\<^sup>2"
proof -
  have "2 * sqrt (variance xs) < \<bar>real_of_int r - m\<bar> \<longleftrightarrow>
        4 * variance xs < \<bar>real_of_int r - m\<bar>\<^sup>2"
    by (rule twice_sqrt_less) (simp_all add: variance_nonneg)
  then show ?thesis
    by (simp add: non_average_def np_std_sqrt)
qed

section \<open>The loop of \<open>wait_for_focus\<close>\<close>

lemma in_focus_eq:
  "cells s a = Some img \<Longrightarrow>
   is_camera_in_focus cv a threshold s =
     (if channels img = 3 \<or> channels img = 4
      then (Inr (laplacian_var cv (bgr2gray cv img) > threshold, laplacian_var cv (bgr2gray cv img)),
            snd (new_array (bgr2gray cv img) s))
      else (Inl CvError, s))"
  by (simp add: is_camera_in_focus_def cvtColor_BGR2GRAY_def new_array_def Let_def)

lemma focus_loop_none:
  "camera i = None \<Longrightarrow>
   focus_loop cv camera keys threshold i s = Some (Inr None, say FailedToCapture s)"
  by (subst focus_loop.simps) simp

lemma focus_loop_some:
  assumes "camera i = Some f" "channels f = 3 \<or> channels f = 4"
  shows "focus_loop cv camera keys threshold i s =
     (if laplacian_var cv (bgr2gray cv f) > threshold
      then Some (Inr (Some (fresh s)), closing (focus_pass cv f threshold s))
      else if keys i AND 255 = 27
      then Some (Inr None, closing (focus_pass cv f threshold s))
      else focus_loop cv camera keys threshold (Suc i) (focus_pass cv f threshold s))"
proof -
  define s1 where "s1 = s\<lparr>cells := (cells s)(fresh s \<mapsto> f), fresh := Suc (fresh s)\<rparr>"
  have n: "new_array f s = (fresh s, s1)"
    by (simp add: new_array_def s1_def)
  have c: "cells s1 (fresh s) = Some f"
    by (simp add: s1_def)
  have e: "is_camera_in_focus cv (fresh s) threshold s1 =
      (Inr (laplacian_var cv (bgr2gray cv f) > threshold, laplacian_var cv (bgr2gray cv f)),
       snd (new_array (bgr2gray cv f) s1))"
    using assms(2) by (simp add: in_focus_eq [OF c])
  show ?thesis
    by (subst focus_loop.simps)
      (simp add: assms(1) n e Let_def focus_pass_def closing_def)
qed

lemma focus_loop_bad:
  assumes "camera i = Some f" "\<not> (channels f = 3 \<or> channels f = 4)"
  shows "focus_loop cv camera keys threshold i s = Some (Inl CvError, snd (new_array f s))"
proof -
  define s1 where "s1 = s\<lparr>cells := (cells s)(fresh s \<mapsto> f), fresh := Suc (fresh s)\<rparr>"
  have n: "new_array f s = (fresh s, s1)"
    by (simp add: new_array_def s1_def)
  have c: "cells s1 (fresh s) = Some f"
    by (simp add: s1_def)
  have e: "is_camera_in_focus cv (fresh s) threshold s1 = (Inl CvError, s1)"
    using assms(2) by (simp add: in_focus_eq [OF c])
  show ?thesis
    by (subst focus_loop.simps) (simp add: assms(1) n e)
qed

lemma focus_loop_skip:
  "(\<forall>j<n. goes_on cv camera keys threshold (i + j)) \<Longrightarrow>
   focus_loop cv camera keys threshold i s =
   focus_loop cv camera keys threshold (i + n) (after_passes cv camera threshold i n s)"
proof (induction n arbitrary: i s)
  case 0
  then show ?case by simp
next
  case (Suc n)
  from Suc.prems have g: "goes_on cv camera keys threshold i"
    by (metis add.right_neutral zero_less_Suc)
  then obtain f where f: "camera i = Some f" "channels f = 3 \<or> channels f = 4"
      "\<not> laplacian_var cv (bgr2gray cv f) > threshold" "keys i AND 255 \<noteq> 27"
    by (auto simp add: goes_on_def split: option.splits)
  have "\<forall>j<n. goes_on cv camera keys threshold (Suc i + j)"
    using Suc.prems by (metis Suc_less_eq add_Suc_right add_Suc)
  from Suc.IH [OF this]
  have "focus_loop cv camera keys threshold (Suc i) (focus_pass cv f threshold s) =
        focus_loop cv camera keys threshold (Suc i + n)
          (after_passes cv camera threshold (Suc i) n (focus_pass cv f threshold s))" .
  with f show ?case
    by (simp add: focus_loop_some [where camera = camera and i = i, OF f(1) f(2)])
qed

section \<open>Evaluating \<open>detect_blobs\<close>\<close>

lemmas eval_defs = passes_def inside_def kp_x_def kp_y_def kp_r_def py_int_def circle_of_def
  non_average_np_std variance_def np_mean_def mean_radius_def std_radius_def radii_def kpt_def
  blob_of_def

lemma detect_blobs_fst:
  assumes "cells s a = Some img"
  shows "fst (detect_blobs cv a cfg s) =
     (if channels img = 3 \<or> channels img = 4 then
        (case blob_detect cv (cfg ''blob_min_area'') (config_get cfg ''blob_max_area'' 100000)
                (thresholded cv img) of
           Inl e \<Rightarrow> Inl e
         | Inr kps \<Rightarrow>
             Inr (map blob_of (filter (passes (int (width img)) (int (height img))
                                         (config_get cfg ''blob_margin'' 10)) kps)))
      else Inl CvError)"
  using assms
  by (simp add: detect_blobs_def cvtColor_BGR2GRAY_def Let_def case_prod_beta thresholded_def
      mark_blobs_fst split: sum.splits)

lemma default_margin_run:
  "fst (detect_blobs (fixed_cv five_blobs 0) 0 default_margin_config (world_with (blank 200 200 3))) =
     Inr (map blob_of five_blobs)"
proof -
  have c: "cells (world_with (blank 200 200 3)) 0 = Some (blank 200 200 3)"
    by (simp add: world_with_def new_array_def empty_world_def)
  show ?thesis
    by (subst detect_blobs_fst [OF c])
      (simp add: blank_def fixed_cv_def default_margin_config_def config_get_def thresholded_def
        five_blobs_def eval_defs)
qed




lemma trace_say: "trace (say m s) = trace s @ [Print m]"
  by (simp add: say_def)

lemma trace_draw: "trace (draw a d s) = trace s"
  by (simp add: draw_def split: option.splits)

lemma flagged_say: "flagged (say m s) = flagged s @ flag_of (Print m)"
  by (simp add: flagged_def trace_say)

lemma flagged_draw: "flagged (draw a d s) = flagged s"
  by (simp add: flagged_def trace_draw)

lemma flagged_imshow: "flagged (imshow win a s) = flagged s"
  by (simp add: flagged_def imshow_def split: option.splits)

lemma flagged_new_array: "flagged (snd (new_array img s)) = flagged s"
  by (simp add: flagged_def new_array_def)

lemma step_flagged:
  "flagged (snd (keypoint_step w h margin m sd imk st k)) =
     flagged (snd st) @
     (if passes w h margin k \<and> non_average m sd (kp_r k) then [(kp_x k, kp_y k, kp_r k)] else [])"
  by (simp add: keypoint_step_def Let_def passes_def flagged_say flagged_draw)

lemma loop_flagged:
  "flagged (snd (foldl (keypoint_step w h margin m sd imk) st kps)) =
     flagged (snd st) @
     map (\<lambda>k. (kp_x k, kp_y k, kp_r k))
       (filter (\<lambda>k. passes w h margin k \<and> non_average m sd (kp_r k)) kps)"
  by (induction kps arbitrary: st) (simp_all add: step_flagged)

lemma mark_blobs_flagged:
  "flagged (snd (mark_blobs cv img margin t kps s)) =
     flagged s @
     map (\<lambda>k. (kp_x k, kp_y k, kp_r k))
       (filter (\<lambda>k. passes (int (width img)) (int (height img)) margin k \<and>
                     non_average (mean_radius kps) (std_radius kps) (kp_r k)) kps)"
  by (simp add: mark_blobs_eq the_loop_def loop_flagged flagged_imshow flagged_new_array)

section \<open>The population of the statistics\<close>

text \<open>
  C1 (as amended). \<open>mean_radius\<close> and \<open>std_radius\<close> are computed once, before the loop, over
  the half sizes of all detected keypoints, those that the edge test later rejects
  included, and every keypoint that passes the edge test is compared with these values:
  the keypoints announced as non-average are those that pass the edge test and satisfy
  the size test against the statistics of the whole list.
\<close>

theorem statistics_over_all_keypoints:
  "flagged (snd (mark_blobs cv img margin t kps s)) =
     flagged s @
     map (\<lambda>k. (kp_x k, kp_y k, kp_r k))
       (filter (\<lambda>k. passes (int (width img)) (int (height img)) margin k \<and>
                     non_average (mean_radius kps) (std_radius kps) (kp_r k)) kps) \<and>
   mean_radius kps =
     (if kps = [] then 0 else (\<Sum>k\<leftarrow>kps. kp_size k / 2) / real (length kps)) \<and>
   std_radius kps =
     (if kps = [] then 0
      else sqrt ((\<Sum>k\<leftarrow>kps. \<bar>kp_size k / 2 - mean_radius kps\<bar>\<^sup>2) / real (length kps)))"
  by (simp add: mark_blobs_flagged mean_radius_def std_radius_def radii_def np_std_def np_mean_def
      comp_def)

lemma corner_stats:
  "non_average (mean_radius corner_blobs) (std_radius corner_blobs) 10"
  by (simp add: corner_blobs_def eval_defs)

text \<open>
  With one blob of radius 10 inside the frame and five of radius 40 across its corner, the
  blob inside is announced as non-average (mean 35 over all six), although it is the only
  keypoint that passes the edge test and the statistics of the edge-filtered set (mean 10,
  deviation 0) would not flag it.
\<close>

theorem statistics_over_edge_filtered_counterexample:
  "flagged (snd (mark_blobs (fixed_cv corner_blobs 0) (blank 200 200 3) 10 (blank 200 200 1)
                   corner_blobs empty_world)) = [(30, 30, 10)] \<and>
   filter (passes 200 200 10) corner_blobs = lone_blob \<and>
   \<not> non_average (mean_radius (filter (passes 200 200 10) corner_blobs))
        (std_radius (filter (passes 200 200 10) corner_blobs)) 10 \<and>
   mean_radius corner_blobs = 35 \<and>
   mean_radius (filter (passes 200 200 10) corner_blobs) = 10"
proof -
  have a: "flagged (snd (mark_blobs (fixed_cv corner_blobs 0) (blank 200 200 3) 10 (blank 200 200 1)
                   corner_blobs empty_world)) = [(30, 30, 10)]"
    by (simp add: mark_blobs_flagged)
       (simp add: flagged_def empty_world_def blank_def corner_blobs_def eval_defs)
  have b: "filter (passes 200 200 10) corner_blobs = lone_blob"
    by (simp add: corner_blobs_def lone_blob_def eval_defs)
  have c: "\<not> non_average (mean_radius lone_blob) (std_radius lone_blob) 10"
    by (simp add: lone_blob_def eval_defs)
  have d: "mean_radius corner_blobs = 35" "mean_radius lone_blob = 10"
    by (simp_all add: corner_blobs_def lone_blob_def eval_defs)
  from a b c d show ?thesis
    by simp
qed


section \<open>Four blobs of radius 10 and one of radius 40\<close>

text \<open>
  In the scenario of C5 the mean radius is 16 and the deviation 12, so the blob of radius 40
  lies exactly two deviations from the mean: the comparison is strict and its circle is
  green, like the other four.
\<close>

theorem radius_40_scenario_counterexample:
  "drawn_on 0 (snd (mark_blobs (fixed_cv five_blobs 0) (blank 200 200 3) 5 (blank 200 200 1)
                      five_blobs empty_world)) =
     [Circle (30, 30) 10 green 2, Circle (170, 30) 10 green 2, Circle (30, 170) 10 green 2,
      Circle (170, 170) 10 green 2, Circle (100, 100) 40 green 2] \<and>
   mean_radius five_blobs = 16 \<and> std_radius five_blobs = 12 \<and>
   \<not> non_average (mean_radius five_blobs) (std_radius five_blobs) 40"
proof -
  have f: "fresh empty_world = 0"
    by (simp add: empty_world_def)
  have a: "drawn_on 0 (snd (mark_blobs (fixed_cv five_blobs 0) (blank 200 200 3) 5 (blank 200 200 1)
                      five_blobs empty_world)) =
     [Circle (30, 30) 10 green 2, Circle (170, 30) 10 green 2, Circle (30, 170) 10 green 2,
      Circle (170, 170) 10 green 2, Circle (100, 100) 40 green 2]"
    using mark_blobs_drawn [of empty_world "fixed_cv five_blobs 0" "blank 200 200 3" 5
        "blank 200 200 1" five_blobs]
    by (simp add: f) (simp add: fixed_cv_def blank_def five_blobs_def eval_defs)
  have m: "mean_radius five_blobs = 16"
    by (simp add: five_blobs_def eval_defs)
  have "variance (radii five_blobs) = 144"
    by (simp add: five_blobs_def eval_defs)
  then have "std_radius five_blobs = sqrt (12\<^sup>2)"
    by (simp add: std_radius_def np_std_sqrt five_blobs_def radii_def)
  then have sd: "std_radius five_blobs = 12"
    by simp
  have n: "\<not> non_average (mean_radius five_blobs) (std_radius five_blobs) 40"
    by (simp add: m sd non_average_def)
  from a m sd n show ?thesis
    by simp
qed

text \<open>
  C5 (as amended). On a 200 by 200 frame with margin 5, four blobs of radius 10 anywhere and
  one blob of radius 40 at the centre: no circle is red, and the blob of radius 40 passes
  the edge test.
\<close>

theorem radius_40_scenario:
  "drawn_on (fresh s)
     (snd (mark_blobs cv (blank 200 200 3) 5 t
             [kpt x1 y1 20, kpt x2 y2 20, kpt x3 y3 20, kpt x4 y4 20, kpt 100 100 80] s)) =
   overlay (gray2bgr cv t) @
   map (\<lambda>k. Circle (kp_x k, kp_y k) (kp_r k) green 2)
     (filter (passes 200 200 5)
        [kpt x1 y1 20, kpt x2 y2 20, kpt x3 y3 20, kpt x4 y4 20, kpt 100 100 80]) \<and>
   passes 200 200 5 (kpt 100 100 80) \<and> kp_r (kpt 100 100 80) = 40"
proof -
  let ?kps = "[kpt x1 y1 20, kpt x2 y2 20, kpt x3 y3 20, kpt x4 y4 20, kpt 100 100 80]"
  have g: "circle_of (mean_radius ?kps) (std_radius ?kps) k = Circle (kp_x k, kp_y k) (kp_r k) green 2"
    if "k \<in> set ?kps" for k
    using that by (auto simp add: eval_defs)
  have "map (circle_of (mean_radius ?kps) (std_radius ?kps)) (filter (passes 200 200 5) ?kps) =
        map (\<lambda>k. Circle (kp_x k, kp_y k) (kp_r k) green 2) (filter (passes 200 200 5) ?kps)"
  proof (rule map_cong [OF refl])
    fix k
    assume "k \<in> set (filter (passes 200 200 5) ?kps)"
    then have "k \<in> set ?kps"
      using filter_is_subset [of "passes 200 200 5" ?kps] by blast
    then show "circle_of (mean_radius ?kps) (std_radius ?kps) k =
        Circle (kp_x k, kp_y k) (kp_r k) green 2"
      by (rule g)
  qed
  moreover have "passes 200 200 5 (kpt 100 100 80)" "kp_r (kpt 100 100 80) = 40"
    by (simp_all add: eval_defs)
  ultimately show ?thesis
    by (simp add: mark_blobs_drawn blank_def)
qed


section \<open>Truncated and exact radii\<close>



lemma large_blob_trace:
  "trace (foldl (large_blob_step avg) s blobs) =
     trace s @
     map (\<lambda>b. Print (OperatorLargeBlob (blob_pt b) (blob_size b)))
       (filter (\<lambda>b. blob_size b > avg * 1.5) blobs)"
  by (induction blobs arbitrary: s)
    (simp_all add: large_blob_step_def operator_message_def say_def)

section \<open>What \<open>detect_blobs\<close> returns\<close>

text \<open>
  C2 (as amended). Each keypoint that passes the edge test becomes exactly one entry of the
  returned list, in the order of detection, and an entry holds \<open>pt\<close> and \<open>size\<close> only. The
  size flag is not stored in it. The overlap test is made afterwards, by \<open>main\<close>, on the
  sizes of the returned list: after the message with the counts, one message for every
  entry whose size exceeds 1.5 times the mean size.
\<close>

theorem blobs_returned_without_flags:
  assumes "detect_blobs cv a cfg s = (Inr blobs, s1)"
  shows "fst (mark_blobs cv img margin t kps s0) =
           map (\<lambda>k. \<lparr>blob_pt = pt k, blob_size = kp_size k\<rparr>)
             (filter (passes (int (width img)) (int (height img)) margin) kps) \<and>
         fst (scan cv a cfg expected_count s) = Inr () \<and>
         trace (snd (scan cv a cfg expected_count s)) =
           trace s1 @
           Print (OperatorFound (length blobs) expected_count (expected_count - real (length blobs))) #
           map (\<lambda>b. Print (OperatorLargeBlob (blob_pt b) (blob_size b)))
             (filter (\<lambda>b. blob_size b > avg_size blobs * 1.5) blobs)"
proof -
  have "fst (mark_blobs cv img margin t kps s0) =
           map (\<lambda>k. \<lparr>blob_pt = pt k, blob_size = kp_size k\<rparr>)
             (filter (passes (int (width img)) (int (height img)) margin) kps)"
    using mark_blobs_fst [of cv img margin t kps s0] by (simp add: blob_of_def [abs_def])
  moreover have "scan cv a cfg expected_count s =
      (Inr (), foldl (large_blob_step (avg_size blobs))
                 (operator_message
                    (OperatorFound (length blobs) expected_count (expected_count - real (length blobs))) s1)
                 blobs)"
    using assms by (simp add: scan_def Let_def)
  ultimately show ?thesis
    by (simp add: large_blob_trace operator_message_def say_def)
qed

theorem blobs_returned_without_flags_witness:
  "fst (mark_blobs (fixed_cv five_blobs 0) (blank 200 200 3) 10 (blank 200 200 1) five_blobs
          empty_world) =
     [\<lparr>blob_pt = (30, 30), blob_size = 20\<rparr>, \<lparr>blob_pt = (170, 30), blob_size = 20\<rparr>,
      \<lparr>blob_pt = (30, 170), blob_size = 20\<rparr>, \<lparr>blob_pt = (170, 170), blob_size = 20\<rparr>,
      \<lparr>blob_pt = (100, 100), blob_size = 80\<rparr>] \<and>
   fst (scan (fixed_cv five_blobs 0) 0 default_margin_config 5 (world_with (blank 200 200 3))) = Inr () \<and>
   trace (snd (scan (fixed_cv five_blobs 0) 0 default_margin_config 5 (world_with (blank 200 200 3)))) =
     trace (snd (detect_blobs (fixed_cv five_blobs 0) 0 default_margin_config
                   (world_with (blank 200 200 3)))) @
     [Print (OperatorFound 5 5 0), Print (OperatorLargeBlob (100, 100) 80)]"
proof -
  let ?run = "detect_blobs (fixed_cv five_blobs 0) 0 default_margin_config (world_with (blank 200 200 3))"
  have d: "?run = (Inr (map blob_of five_blobs), snd ?run)"
    using default_margin_run by (simp add: prod_eq_iff)
  have l: "length (map blob_of five_blobs) = 5"
    by (simp add: five_blobs_def)
  have v: "filter (\<lambda>b. blob_size b > avg_size (map blob_of five_blobs) * 1.5) (map blob_of five_blobs) =
      [blob_of (kpt 100 100 80)]"
    by (simp add: five_blobs_def avg_size_def eval_defs)
  have p: "filter (passes (int (width (blank 200 200 3))) (int (height (blank 200 200 3))) 10) five_blobs =
      five_blobs"
    by (simp add: five_blobs_def blank_def eval_defs)
  from blobs_returned_without_flags [OF d, of "blank 200 200 3" 10 "blank 200 200 1" five_blobs
      empty_world 5]
  show ?thesis
    unfolding l v p by (simp add: five_blobs_def blob_of_def kpt_def)
qed

text \<open>
  The blob at (30, 30) alone, and the same blob together with five blobs across the corner:
  both runs return the same list of one entry, and the blob is announced as non-average
  in the second run only. The returned entry does not tell the two apart.
\<close>

theorem blobs_carry_flags_counterexample:
  "fst (mark_blobs (fixed_cv lone_blob 0) (blank 200 200 3) 10 (blank 200 200 1) lone_blob
          empty_world) = [\<lparr>blob_pt = (30, 30), blob_size = 20\<rparr>] \<and>
   fst (mark_blobs (fixed_cv corner_blobs 0) (blank 200 200 3) 10 (blank 200 200 1) corner_blobs
          empty_world) = [\<lparr>blob_pt = (30, 30), blob_size = 20\<rparr>] \<and>
   flagged (snd (mark_blobs (fixed_cv lone_blob 0) (blank 200 200 3) 10 (blank 200 200 1)
                   lone_blob empty_world)) = [] \<and>
   flagged (snd (mark_blobs (fixed_cv corner_blobs 0) (blank 200 200 3) 10 (blank 200 200 1)
                   corner_blobs empty_world)) = [(30, 30, 10)]"
proof -
  have e: "flagged empty_world = []"
    by (simp add: flagged_def empty_world_def)
  show ?thesis
    by (simp add: mark_blobs_fst mark_blobs_flagged e)
      (simp add: blank_def lone_blob_def corner_blobs_def eval_defs)
qed

lemma world_with_cell: "cells (world_with img) 0 = Some img"
  by (simp add: world_with_def new_array_def empty_world_def)



section \<open>The focus verdict\<close>

text \<open>
  C9 (as amended). \<open>is_camera_in_focus\<close> converts with \<open>COLOR_BGR2GRAY\<close> unconditionally.
  On a frame of three or four channels it completes and returns the verdict
  \<open>score > threshold\<close> together with the score, whatever the score is, zero included; on
  any other frame, one that is already single-channel among them, the conversion raises
  \<open>cv2.error\<close>.
\<close>

theorem focus_verdict:
  assumes "cells s a = Some img"
  shows "fst (is_camera_in_focus cv a threshold s) =
     (if channels img = 3 \<or> channels img = 4
      then Inr (laplacian_var cv (bgr2gray cv img) > threshold, laplacian_var cv (bgr2gray cv img))
      else Inl CvError)"
  using assms by (simp add: in_focus_eq)

theorem focus_verdict_witness:
  "cells (world_with (blank 480 640 3)) 0 = Some (blank 480 640 3) \<and>
   fst (is_camera_in_focus (fixed_cv [] 0) 0 9 (world_with (blank 480 640 3))) = Inr (False, 0)"
proof -
  from focus_verdict [OF world_with_cell, where cv = "fixed_cv [] 0" and threshold = 9
      and img = "blank 480 640 3"]
  have "fst (is_camera_in_focus (fixed_cv [] 0) 0 9 (world_with (blank 480 640 3))) = Inr (False, 0)"
    by (simp add: blank_def fixed_cv_def)
  then show ?thesis
    by (simp add: world_with_cell)
qed

text \<open>A frame that is already single-channel: the function raises.\<close>

theorem single_channel_frame_counterexample:
  "fst (is_camera_in_focus (fixed_cv [] 0) 0 9 (world_with (blank 480 640 1))) = Inl CvError"
  by (simp add: in_focus_eq [OF world_with_cell] blank_def)






lemma wait_for_focus_skip:
  assumes "\<forall>j<n. goes_on cv camera keys threshold j"
  shows "wait_for_focus cv camera keys threshold s =
     focus_loop cv camera keys threshold n (after_passes cv camera threshold 0 n s)"
  using focus_loop_skip [of n cv camera keys threshold 0 s] assms
  by (simp add: wait_for_focus_def)

section \<open>How \<open>wait_for_focus\<close> ends\<close>

text \<open>
  C7 (as amended). After \<open>n\<close> passes that went round again (a frame of three or four
  channels was read, it was out of focus and the key was not ESC), the next pass decides:
  when the camera delivers no frame, the function prints the failure and returns \<open>None\<close>
  without another read; when the frame is in focus, it returns the reference to that
  frame, the first one in focus; when it is out of focus and the key is ESC, it returns
  \<open>None\<close>; otherwise the loop goes round once more. The two endings without a frame
  return the same value \<open>None\<close>.
\<close>

theorem wait_for_focus_endings:
  assumes "\<forall>j<n. goes_on cv camera keys threshold j"
  shows "(camera n = None \<longrightarrow>
            wait_for_focus cv camera keys threshold s =
              Some (Inr None, say FailedToCapture (after_passes cv camera threshold 0 n s))) \<and>
         (\<forall>f. camera n = Some f \<and> (channels f = 3 \<or> channels f = 4) \<longrightarrow>
            wait_for_focus cv camera keys threshold s =
              (if laplacian_var cv (bgr2gray cv f) > threshold then
                 Some (Inr (Some (fresh (after_passes cv camera threshold 0 n s))),
                       closing (focus_pass cv f threshold (after_passes cv camera threshold 0 n s)))
               else if keys n AND 255 = 27 then
                 Some (Inr None,
                       closing (focus_pass cv f threshold (after_passes cv camera threshold 0 n s)))
               else focus_loop cv camera keys threshold (Suc n)
                      (focus_pass cv f threshold (after_passes cv camera threshold 0 n s))))"
proof -
  note skip = wait_for_focus_skip [OF assms, of s]
  have "wait_for_focus cv camera keys threshold s =
      Some (Inr None, say FailedToCapture (after_passes cv camera threshold 0 n s))"
    if "camera n = None"
    using that by (simp add: skip focus_loop_none)
  moreover have "wait_for_focus cv camera keys threshold s =
      (if laplacian_var cv (bgr2gray cv f) > threshold then
         Some (Inr (Some (fresh (after_passes cv camera threshold 0 n s))),
               closing (focus_pass cv f threshold (after_passes cv camera threshold 0 n s)))
       else if keys n AND 255 = 27 then
         Some (Inr None,
               closing (focus_pass cv f threshold (after_passes cv camera threshold 0 n s)))
       else focus_loop cv camera keys threshold (Suc n)
              (focus_pass cv f threshold (after_passes cv camera threshold 0 n s)))"
    if "camera n = Some f" "channels f = 3 \<or> channels f = 4" for f
    unfolding skip
    by (rule focus_loop_some [where camera = camera and i = n, OF that])
  ultimately show ?thesis
    by blast
qed


lemma goes_on_one_shot:
  "goes_on (fixed_cv [] 0) (one_shot_camera (blank 480 640 3)) no_key 9 0"
  by (simp add: goes_on_def one_shot_camera_def blank_def fixed_cv_def no_key_def)

theorem wait_for_focus_endings_witness:
  "goes_on (fixed_cv [] 0) (one_shot_camera (blank 480 640 3)) no_key 9 0 \<and>
   one_shot_camera (blank 480 640 3) 1 = None \<and>
   wait_for_focus (fixed_cv [] 0) (one_shot_camera (blank 480 640 3)) no_key 9 empty_world =
     Some (Inr None,
           say FailedToCapture
             (after_passes (fixed_cv [] 0) (one_shot_camera (blank 480 640 3)) 9 0 1 empty_world))"
proof -
  have g: "\<forall>j<1. goes_on (fixed_cv [] 0) (one_shot_camera (blank 480 640 3)) no_key 9 j"
    using goes_on_one_shot by simp
  have n: "one_shot_camera (blank 480 640 3) 1 = None"
    by (simp add: one_shot_camera_def)
  from wait_for_focus_endings [OF g, of empty_world] n goes_on_one_shot
  show ?thesis
    by blast
qed

text \<open>A camera that delivers nothing, and a camera in front of which ESC is pressed: the
  value returned is \<open>None\<close> in both runs.\<close>

theorem no_frame_and_cancelled_counterexample:
  "map_option fst (wait_for_focus (fixed_cv [] 0) dead_camera no_key 9 empty_world) =
     Some (Inr None) \<and>
   map_option fst (wait_for_focus (fixed_cv [] 0) (still_camera (blank 480 640 3)) esc_key 9
                     empty_world) = Some (Inr None)"
proof -
  have a: "dead_camera 0 = None"
    by (simp add: dead_camera_def)
  have b: "still_camera (blank 480 640 3) 0 = Some (blank 480 640 3)"
    "channels (blank 480 640 3) = 3 \<or> channels (blank 480 640 3) = 4"
    by (simp_all add: still_camera_def blank_def)
  have "map_option fst (wait_for_focus (fixed_cv [] 0) dead_camera no_key 9 empty_world) =
      Some (Inr None)"
    by (simp add: wait_for_focus_def focus_loop_none [where camera = dead_camera and i = 0, OF a])
  moreover have "map_option fst (wait_for_focus (fixed_cv [] 0) (still_camera (blank 480 640 3))
      esc_key 9 empty_world) = Some (Inr None)"
    unfolding wait_for_focus_def
    by (subst focus_loop_some [where camera = "still_camera (blank 480 640 3)" and i = 0, OF b])
      (simp add: fixed_cv_def esc_key_def)
  ultimately show ?thesis
    by simp
qed

section \<open>Writes into the frame\<close>




lemma key_and: "(- 1 :: int) AND 255 = 255"
  by simp

lemma trace_imshow_ext: "\<exists>r. trace (imshow win a s) = trace s @ r"
  by (simp add: imshow_def split: option.splits)

lemma step_trace_ext:
  "\<exists>r. trace (snd (keypoint_step w h margin m sd imk st k)) = trace (snd st) @ r"
  by (simp add: keypoint_step_def Let_def trace_say trace_draw)

lemma loop_trace_ext:
  "\<exists>r. trace (snd (foldl (keypoint_step w h margin m sd imk) st kps)) = trace (snd st) @ r"
proof (induction kps arbitrary: st)
  case Nil
  then show ?case by simp
next
  case (Cons k kps)
  obtain r1 where r1: "trace (snd (keypoint_step w h margin m sd imk st k)) = trace (snd st) @ r1"
    using step_trace_ext by blast
  obtain r2 where "trace (snd (foldl (keypoint_step w h margin m sd imk)
      (keypoint_step w h margin m sd imk st k) kps)) =
      trace (snd (keypoint_step w h margin m sd imk st k)) @ r2"
    using Cons.IH by blast
  with r1 show ?case
    by simp
qed

lemma mark_blobs_trace_ext:
  "\<exists>r. trace (snd (mark_blobs cv img margin t kps s)) = trace s @ r"
proof -
  obtain r1 where r1: "trace (snd (the_loop cv img margin t kps s)) = trace s @ r1"
    using loop_trace_ext [of "int (width img)" "int (height img)" margin "mean_radius kps"
        "std_radius kps" "fresh s" "([], snd (new_array (gray2bgr cv t) s))" kps]
    by (auto simp add: the_loop_def new_array_def)
  obtain r2 where "trace (imshow ''Blobs'' (fresh s) (snd (the_loop cv img margin t kps s))) =
      trace (snd (the_loop cv img margin t kps s)) @ r2"
    using trace_imshow_ext by blast
  with r1 show ?thesis
    by (simp add: mark_blobs_eq)
qed

lemma detect_blobs_trace:
  assumes "cells s a = Some img" "channels img = 3 \<or> channels img = 4"
  shows "\<exists>r. trace (snd (detect_blobs cv a cfg s)) =
           trace s @
           [ImShow ''Thresholded Image'' (thresholded cv img),
            Print (ContoursFound (find_contours cv (thresholded cv img)))] @ r"
proof -
  define s3 where "s3 = say (ContoursFound (find_contours cv (thresholded cv img)))
     (imshow ''Thresholded Image'' (Suc (Suc (fresh s)))
        (snd (new_array (thresholded cv img)
           (snd (new_array (gaussian_blur cv (bgr2gray cv img))
              (snd (new_array (bgr2gray cv img) s)))))))"
  have t3: "trace s3 = trace s @
           [ImShow ''Thresholded Image'' (thresholded cv img),
            Print (ContoursFound (find_contours cv (thresholded cv img)))]"
    by (simp add: s3_def trace_say imshow_def new_array_def)
  have m: "\<exists>r. trace (snd (mark_blobs cv img margin (thresholded cv img) kps (say msg s3))) =
      trace s3 @ r" for margin kps msg
    using mark_blobs_trace_ext [of cv img margin "thresholded cv img" kps "say msg s3"]
    by (auto simp add: trace_say)
  have "\<exists>r. trace (snd (detect_blobs cv a cfg s)) = trace s3 @ r"
    using assms m
    by (simp add: detect_blobs_def cvtColor_BGR2GRAY_def Let_def case_prod_beta
        thresholded_def s3_def new_array_def split: sum.splits)
  then show ?thesis
    by (simp add: t3)
qed

section \<open>A configuration without \<open>blob_min_area\<close>\<close>

text \<open>
  C4 (as amended). When the configuration has no \<open>blob_min_area\<close>, nothing fails when the
  configuration is read or when \<open>detect_blobs\<close> starts: \<open>config.get\<close> yields \<open>None\<close>, the
  frame is converted, blurred and thresholded, the thresholded image is shown and the
  number of contours printed, and only then does the blob detector receive \<open>None\<close> as its
  minimal area. The outcome of the scan is what the detector makes of it.
\<close>

theorem missing_min_area:
  assumes "cfg ''blob_min_area'' = None"
    and "cells s a = Some img" "channels img = 3 \<or> channels img = 4"
  shows "fst (detect_blobs cv a cfg s) =
           (case blob_detect cv None (config_get cfg ''blob_max_area'' 100000) (thresholded cv img) of
              Inl e \<Rightarrow> Inl e
            | Inr kps \<Rightarrow>
                Inr (map blob_of
                       (filter (passes (int (width img)) (int (height img))
                                  (config_get cfg ''blob_margin'' 10)) kps))) \<and>
         (\<exists>r. trace (snd (detect_blobs cv a cfg s)) =
                 trace s @
                 [ImShow ''Thresholded Image'' (thresholded cv img),
                  Print (ContoursFound (find_contours cv (thresholded cv img)))] @ r)"
  using assms detect_blobs_trace [OF assms(2,3), of cv cfg]
  by (simp add: detect_blobs_fst [OF assms(2)])

theorem missing_min_area_witness:
  "no_min_area_config ''blob_min_area'' = None \<and>
   cells (world_with (blank 200 200 3)) 0 = Some (blank 200 200 3) \<and>
   channels (blank 200 200 3) = 3 \<and>
   fst (detect_blobs (fixed_cv five_blobs 0) 0 no_min_area_config (world_with (blank 200 200 3))) =
     Inr (map blob_of five_blobs)"
proof -
  have a: "no_min_area_config ''blob_min_area'' = None"
    by (simp add: no_min_area_config_def)
  have c: "channels (blank 200 200 3) = 3 \<or> channels (blank 200 200 3) = 4"
    by (simp add: blank_def)
  have "fst (detect_blobs (fixed_cv five_blobs 0) 0 no_min_area_config (world_with (blank 200 200 3))) =
     Inr (map blob_of five_blobs)"
    using missing_min_area [where cfg = no_min_area_config and cv = "fixed_cv five_blobs 0",
        OF a world_with_cell [of "blank 200 200 3"] c]
    by (simp add: fixed_cv_def blank_def no_min_area_config_def config_get_def five_blobs_def
        eval_defs)
  with a world_with_cell show ?thesis
    by (simp add: blank_def)
qed

text \<open>
  \<open>main\<close> with such a configuration, a camera that delivers one frame and no key pressed:
  the program starts, shows the frame, and ends with the camera error; no error about the
  configuration is raised.
\<close>

theorem missing_min_area_counterexample:
  "no_min_area_config ''blob_min_area'' = None \<and>
   map_option fst (main (fixed_cv five_blobs 0) no_min_area_config
                     (one_shot_camera (blank 200 200 3)) no_key empty_world) = Some (Inr ()) \<and>
   map_option (trace \<circ> snd) (main (fixed_cv five_blobs 0) no_min_area_config
                     (one_shot_camera (blank 200 200 3)) no_key empty_world) =
     Some [Print PressSpace, ImShow ''Tray View'' (blank 200 200 3), Print OperatorCameraError,
           Release, DestroyAllWindows]"
proof -
  have "main_loop (fixed_cv five_blobs 0) no_min_area_config 5
          (one_shot_camera (blank 200 200 3)) no_key 0 (say PressSpace empty_world) =
        Some (Inr (), \<lparr>cells = [0 \<mapsto> blank 200 200 3], fresh = 1,
                       trace = [Print PressSpace, ImShow ''Tray View'' (blank 200 200 3),
                                Print OperatorCameraError]\<rparr>)"
    apply (subst main_loop.simps)
    apply (simp add: one_shot_camera_def new_array_def imshow_def say_def empty_world_def
        no_key_def Let_def)
    apply (subst main_loop.simps)
    apply (simp add: one_shot_camera_def operator_message_def say_def)
    done
  then show ?thesis
    by (simp add: main_def Let_def no_min_area_config_def config_get_def)
qed

section \<open>The loop over the keypoints in the arithmetic of the interpreter\<close>








section \<open>The size test\<close>






section \<open>The edge filter\<close>

lemma py_int_near: "real_of_int (py_int v) - 1 < v \<and> v < real_of_int (py_int v) + 1"
  unfolding py_int_def by (cases "0 \<le> v") (simp_all, linarith+)

lemma py_int_le: "0 \<le> v \<Longrightarrow> real_of_int (py_int v) \<le> v"
  by (simp add: py_int_def)

lemma above_integer:
  assumes "margin \<in> \<int>" "real_of_int n > margin"
  shows "real_of_int n \<ge> margin + 1"
proof -
  from assms(1) obtain m where m: "margin = real_of_int m"
    by (auto elim: Ints_cases)
  with assms(2) have "m < n"
    by simp
  then have "m + 1 \<le> n"
    by simp
  then have "real_of_int (m + 1) \<le> real_of_int n"
    by (simp only: of_int_le_iff)
  with m show ?thesis
    by simp
qed

lemma below_integer:
  assumes "margin \<in> \<int>" "real_of_int n < real_of_int w - margin"
  shows "real_of_int n \<le> real_of_int w - margin - 1"
proof -
  from assms(1) obtain m where m: "margin = real_of_int m"
    by (auto elim: Ints_cases)
  with assms(2) have "real_of_int n < real_of_int (w - m)"
    by simp
  then have "n < w - m"
    by (simp only: of_int_less_iff)
  then have "n \<le> w - m - 1"
    by simp
  then have "real_of_int n \<le> real_of_int (w - m - 1)"
    by (simp only: of_int_le_iff)
  with m show ?thesis
    by simp
qed

text \<open>
  C3 (as amended). For every dictionary that \<open>detect_blobs\<close> returns, the integers
  \<open>x, y = int(pt)\<close> and \<open>r = int(size / 2)\<close> that the function tests keep the margin, strictly,
  on all four sides. The circle of the keypoint itself, \<open>pt\<close> with radius \<open>size / 2\<close>, stays
  within two pixels of the margin; when the margin is a whole number and the centre has
  non-negative coordinates, it keeps the margin on the left and at the top and exceeds it
  by less than one pixel on the right and at the bottom. With margin 10 no returned blob
  has \<open>x - r = 0\<close>, and none has a circle that reaches \<open>x = 0\<close>, whatever its size flag.
\<close>

theorem retained_inside_margin:
  assumes "cells s a = Some img"
    and "fst (detect_blobs cv a cfg s) = Inr blobs"
    and "b \<in> set blobs"
  shows "(let margin = config_get cfg ''blob_margin'' 10;
              cx = fst (blob_pt b); cy = snd (blob_pt b); radius = blob_size b / 2;
              x = py_int cx; y = py_int cy; r = py_int radius
          in (real_of_int (x - r) > margin \<and> real_of_int (x + r) < real (width img) - margin \<and>
              real_of_int (y - r) > margin \<and> real_of_int (y + r) < real (height img) - margin) \<and>
             (cx - radius > margin - 2 \<and> cx + radius < real (width img) - margin + 2 \<and>
              cy - radius > margin - 2 \<and> cy + radius < real (height img) - margin + 2) \<and>
             (margin \<in> \<int> \<and> 0 \<le> cx \<and> 0 \<le> cy \<longrightarrow>
                cx - radius > margin \<and> cx + radius < real (width img) - margin + 1 \<and>
                cy - radius > margin \<and> cy + radius < real (height img) - margin + 1) \<and>
             (margin = 10 \<longrightarrow> x - r \<noteq> 0 \<and> cx - radius > 8))"
proof -
  define margin where "margin = config_get cfg ''blob_margin'' 10"
  define cx where "cx = fst (blob_pt b)"
  define cy where "cy = snd (blob_pt b)"
  define radius where "radius = blob_size b / 2"
  define x where "x = py_int cx"
  define y where "y = py_int cy"
  define r where "r = py_int radius"
  from assms(1,2) obtain kps where
    blobs: "blobs = map blob_of (filter (passes (int (width img)) (int (height img)) margin) kps)"
    by (auto simp add: detect_blobs_fst margin_def split: if_splits sum.splits)
  with assms(3) obtain k where k: "b = blob_of k"
      "passes (int (width img)) (int (height img)) margin k"
    by auto
  from k have t: "real_of_int (x - r) > margin" "real_of_int (x + r) < real_of_int (int (width img)) - margin"
      "real_of_int (y - r) > margin" "real_of_int (y + r) < real_of_int (int (height img)) - margin"
    by (simp_all add: passes_def inside_def blob_of_def kp_x_def kp_y_def kp_r_def
        x_def y_def r_def cx_def cy_def radius_def)
  note nx = py_int_near [of cx, folded x_def]
  note ny = py_int_near [of cy, folded y_def]
  note nr = py_int_near [of radius, folded r_def]
  have near: "cx - radius > margin - 2" "cx + radius < real (width img) - margin + 2"
      "cy - radius > margin - 2" "cy + radius < real (height img) - margin + 2"
    using t nx ny nr by simp_all
  have int_margin: "cx - radius > margin \<and> cx + radius < real (width img) - margin + 1 \<and>
      cy - radius > margin \<and> cy + radius < real (height img) - margin + 1"
    if h: "margin \<in> \<int>" "0 \<le> cx" "0 \<le> cy"
  proof -
    have lx: "real_of_int x \<le> cx" and ly: "real_of_int y \<le> cy"
      using h(2,3) by (simp_all add: x_def y_def py_int_le)
    have a1: "real_of_int (x - r) \<ge> margin + 1" "real_of_int (y - r) \<ge> margin + 1"
      using above_integer [OF h(1) t(1)] above_integer [OF h(1) t(3)] by simp_all
    have a2: "real_of_int (x + r) \<le> real_of_int (int (width img)) - margin - 1"
      "real_of_int (y + r) \<le> real_of_int (int (height img)) - margin - 1"
      using below_integer [OF h(1) t(2)] below_integer [OF h(1) t(4)] by simp_all
    show ?thesis
      using a1 a2 lx ly nx ny nr by simp
  qed
  have ten: "x - r \<noteq> 0 \<and> cx - radius > 8" if "margin = 10"
    using that t(1) near(1) by auto
  from t near int_margin ten show ?thesis
    unfolding Let_def margin_def [symmetric] cx_def [symmetric] cy_def [symmetric]
      radius_def [symmetric] x_def [symmetric] y_def [symmetric] r_def [symmetric]
    by simp
qed

lemma overhanging_run:
  "fst (detect_blobs (fixed_cv overhanging_blob 0) 0 default_margin_config
          (world_with (blank 200 200 3))) =
     Inr [\<lparr>blob_pt = (180.75, 100), blob_size = 19.5\<rparr>]"
proof -
  have c: "cells (world_with (blank 200 200 3)) 0 = Some (blank 200 200 3)"
    by (simp add: world_with_def new_array_def empty_world_def)
  show ?thesis
    by (subst detect_blobs_fst [OF c])
      (simp add: blank_def fixed_cv_def default_margin_config_def config_get_def thresholded_def
        overhanging_blob_def eval_defs)
qed

theorem retained_inside_margin_witness:
  "cells (world_with (blank 200 200 3)) 0 = Some (blank 200 200 3) \<and>
   fst (detect_blobs (fixed_cv overhanging_blob 0) 0 default_margin_config
          (world_with (blank 200 200 3))) =
     Inr [\<lparr>blob_pt = (180.75, 100), blob_size = 19.5\<rparr>] \<and>
   \<lparr>blob_pt = (180.75, 100), blob_size = 19.5\<rparr> \<in> set [\<lparr>blob_pt = (180.75, 100), blob_size = 19.5\<rparr>] \<and>
   config_get default_margin_config ''blob_margin'' 10 = 10 \<and> (10 :: real) \<in> \<int> \<and>
   py_int 180.75 = 180 \<and> py_int (19.5 / 2) = 9 \<and>
   real_of_int (180 + 9) < real (width (blank 200 200 3)) - 10 \<and>
   (180.75 :: real) - 19.5 / 2 > 10 \<and>
   (180.75 :: real) + 19.5 / 2 < real (width (blank 200 200 3)) - 10 + 1"
proof -
  have c: "cells (world_with (blank 200 200 3)) 0 = Some (blank 200 200 3)"
    by (simp add: world_with_def new_array_def empty_world_def)
  have m: "\<lparr>blob_pt = (180.75, 100), blob_size = 19.5\<rparr> \<in>
      set [\<lparr>blob_pt = (180.75, 100), blob_size = 19.5\<rparr>]"
    by simp
  have d: "config_get default_margin_config ''blob_margin'' 10 = 10"
    by (simp add: default_margin_config_def config_get_def)
  have i: "(10 :: real) \<in> \<int>"
    by simp
  have p: "py_int 180.75 = 180" "py_int (19.5 / 2) = 9"
    by (simp_all add: py_int_def)
  from retained_inside_margin [OF c overhanging_run m]
  have "real_of_int (180 + 9) < real (width (blank 200 200 3)) - 10 \<and>
   (180.75 :: real) - 19.5 / 2 > 10 \<and>
   (180.75 :: real) + 19.5 / 2 < real (width (blank 200 200 3)) - 10 + 1"
    unfolding Let_def d by (simp add: p i)
  with c overhanging_run m d i p show ?thesis
    by simp
qed

text \<open>
  A keypoint at (180.75, 100) of size 19.5 on a frame 200 wide with margin 10: \<open>x + r\<close> is
  189, below 190, so the blob is returned, while its circle reaches 190.5.
\<close>

theorem exact_circle_counterexample:
  "fst (detect_blobs (fixed_cv overhanging_blob 0) 0 default_margin_config
          (world_with (blank 200 200 3))) =
     Inr [\<lparr>blob_pt = (180.75, 100), blob_size = 19.5\<rparr>] \<and>
   config_get default_margin_config ''blob_margin'' 10 = 10 \<and>
   \<not> (fst (180.75 :: real, 100 :: real) + 19.5 / 2 \<le> real (width (blank 200 200 3)) - 10)"
proof -
  have d: "config_get default_margin_config ''blob_margin'' 10 = 10"
    by (simp add: default_margin_config_def config_get_def)
  have "\<not> (fst (180.75 :: real, 100 :: real) + 19.5 / 2 \<le> real (width (blank 200 200 3)) - 10)"
    by (simp add: blank_def)
  with overhanging_run d show ?thesis
    by simp
qed

end
